theory Spec2Isabelle
  imports Complex_Main
begin

section \<open>AQI computation of app.py\<close>

text \<open>
  The development embeds the computational core of \<^verbatim>\<open>app.py\<close>: the sub-index
  interpolation \<^verbatim>\<open>calculate_sub_aqi\<close>, the aggregation \<^verbatim>\<open>get_aqi\<close> with its five
  breakpoint tables, and the category/colour chain of the button handler.

  Numbers. The concentrations, the table entries and the sub-indices are Python numbers
  (ints and floats mixed). They are modelled as rationals \<^typ>\<open>rat\<close>: a decimal literal
  of the source such as \<^verbatim>\<open>12.1\<close> is the rational \<open>121 / 10\<close>, comparisons are exact
  (as Python's are), and \<open>+\<close>, \<open>-\<close>, \<open>*\<close>, \<open>/\<close> are exact, so the rounding error of
  IEEE double arithmetic is not part of the model. The result of \<^verbatim>\<open>round\<close> is a
  Python int, modelled as \<^typ>\<open>int\<close>. Outside the model are therefore: a computed
  sub-index that differs from the exact one in the last bits (which can move a value
  across a rounding tie or break an exact tie between two pollutants), the infinities
  and NaN, and the \<^verbatim>\<open>OverflowError\<close> of converting an int beyond the double range. The
  statements below are about the values the functions compute; the concrete results of
  \<^verbatim>\<open>get_aqi\<close> stated below (index and dominant pollutant) are for inputs on which the
  double computation gives the same result.

  Errors. Every place where the Python may raise is a branch of the model: the true
  division raises \<^verbatim>\<open>ZeroDivisionError\<close> on a zero divisor, \<^verbatim>\<open>breakpoints[-1]\<close> and
  \<^verbatim>\<open>[...][0]\<close> raise \<^verbatim>\<open>IndexError\<close> on an empty list, \<^verbatim>\<open>max\<close> raises
  \<^verbatim>\<open>ValueError\<close> on an empty list.

  Strings are byte strings: a source literal is the list of its UTF-8 bytes.
\<close>

datatype error = ZeroDivisionError | IndexError | ValueError

type_synonym band = "rat \<times> rat \<times> rat \<times> rat"

subsection \<open>Python primitives\<close>

definition true_div :: "rat \<Rightarrow> rat \<Rightarrow> error + rat" where
  \<comment> \<open>Python's \<^verbatim>\<open>a / b\<close>.\<close>
  "true_div a b = (if b = 0 then Inl ZeroDivisionError else Inr (a / b))"

definition py_round :: "rat \<Rightarrow> int" where
  \<comment> \<open>Python's one-argument \<^verbatim>\<open>round\<close>: nearest integer, a tie goes to the even one.\<close>
  "py_round x =
     (let f = \<lfloor>x\<rfloor>; d = x - of_int f
      in if d < 1 / 2 then f
         else if 1 / 2 < d then f + 1
         else if even f then f else f + 1)"

fun py_max :: "rat list \<Rightarrow> error + rat" where
  \<comment> \<open>Python's \<^verbatim>\<open>max(list)\<close>: the first item is kept until a strictly larger one comes.\<close>
  "py_max [] = Inl ValueError"
| "py_max (x # xs) = Inr (foldl (\<lambda>m v. if m < v then v else m) x xs)"

definition index0 :: "'a list \<Rightarrow> error + 'a" where
  \<comment> \<open>Python's \<^verbatim>\<open>xs[0]\<close>.\<close>
  "index0 xs = (case xs of [] \<Rightarrow> Inl IndexError | x # _ \<Rightarrow> Inr x)"

subsection \<open>Sub-index interpolation\<close>

text \<open>
  \<^verbatim>\<open>
  def calculate_sub_aqi(C, breakpoints):
      for low_c, high_c, low_i, high_i in breakpoints:
          if low_c <= C <= high_c:
              return low_i + (high_i - low_i) * (C - low_c) / (high_c - low_c)
      return 500 if C > breakpoints[-1][1] else 0
  \<close>
  The loop runs over the bands still to be visited; the whole table is kept for the
  statement after the loop.
\<close>

fun sub_aqi_loop :: "rat \<Rightarrow> band list \<Rightarrow> band list \<Rightarrow> error + rat" where
  "sub_aqi_loop C breakpoints [] =
     (if breakpoints = [] then Inl IndexError
      else Inr (if fst (snd (last breakpoints)) < C then 500 else 0))"
| "sub_aqi_loop C breakpoints ((low_c, high_c, low_i, high_i) # rest) =
     (if low_c \<le> C \<and> C \<le> high_c
      then (case true_div ((high_i - low_i) * (C - low_c)) (high_c - low_c) of
              Inl e \<Rightarrow> Inl e
            | Inr q \<Rightarrow> Inr (low_i + q))
      else sub_aqi_loop C breakpoints rest)"

definition calculate_sub_aqi :: "rat \<Rightarrow> band list \<Rightarrow> error + rat" where
  "calculate_sub_aqi C breakpoints = sub_aqi_loop C breakpoints breakpoints"

subsection \<open>Breakpoint tables and pollutant names of \<^verbatim>\<open>get_aqi\<close>\<close>

definition pm25_bp :: "band list" where
  "pm25_bp = [(0, 12, 0, 50), (12.1, 35.4, 51, 100), (35.5, 55.4, 101, 150),
              (55.5, 150.4, 151, 200), (150.5, 250.4, 201, 300), (250.5, 500.4, 301, 500)]"

definition pm10_bp :: "band list" where
  "pm10_bp = [(0, 54, 0, 50), (55, 154, 51, 100), (155, 254, 101, 150),
              (255, 354, 151, 200), (355, 424, 201, 300), (425, 604, 301, 500)]"

definition co_bp :: "band list" where
  "co_bp = [(0, 4.4, 0, 50), (4.5, 9.4, 51, 100), (9.5, 12.4, 101, 150),
            (12.5, 15.4, 151, 200), (15.5, 30.4, 201, 300), (30.5, 50.4, 301, 500)]"

definition o3_bp :: "band list" where
  "o3_bp = [(0, 54, 0, 50), (55, 70, 51, 100), (71, 85, 101, 150),
            (86, 105, 151, 200), (106, 200, 201, 300), (201, 604, 301, 500)]"

definition no2_bp :: "band list" where
  "no2_bp = [(0, 53, 0, 50), (54, 100, 51, 100), (101, 360, 101, 150),
             (361, 649, 151, 200), (650, 1249, 201, 300), (1250, 2049, 301, 500)]"

definition name_pm25 :: string where
  "name_pm25 = ''PM2.5''"

definition name_pm10 :: string where
  "name_pm10 = ''PM10''"

definition name_co :: string where
  "name_co = ''CO''"

definition name_o3 :: string where
  \<comment> \<open>\<^verbatim>\<open>O\<close> followed by SUBSCRIPT THREE (U+2083), in UTF-8.\<close>
  "name_o3 = [CHR ''O'', CHR 0xE2, CHR 0x82, CHR 0x83]"

definition name_no2 :: string where
  \<comment> \<open>\<^verbatim>\<open>NO\<close> followed by SUBSCRIPT TWO (U+2082), in UTF-8.\<close>
  "name_no2 = [CHR ''N'', CHR ''O'', CHR 0xE2, CHR 0x82, CHR 0x82]"

subsection \<open>Aggregation\<close>

text \<open>
  One \<^verbatim>\<open>if x is not None: aqi_list.append((name, calculate_sub_aqi(x, bp)))\<close> block:
  the list is passed in and returned extended; an exception of the call leaves the function.
\<close>

fun append_reading ::
  "string \<Rightarrow> band list \<Rightarrow> rat option \<Rightarrow> (string \<times> rat) list \<Rightarrow> error + (string \<times> rat) list"
where
  "append_reading name bp None aqi_list = Inr aqi_list"
| "append_reading name bp (Some c) aqi_list =
     (case calculate_sub_aqi c bp of
        Inl e \<Rightarrow> Inl e
      | Inr v \<Rightarrow> Inr (aqi_list @ [(name, v)]))"

definition aqi_list ::
  "rat option \<Rightarrow> rat option \<Rightarrow> rat option \<Rightarrow> rat option \<Rightarrow> rat option
     \<Rightarrow> error + (string \<times> rat) list"
where
  \<comment> \<open>The value of the variable \<^verbatim>\<open>aqi_list\<close> after the five blocks.\<close>
  "aqi_list pm25 pm10 co o3 no2 =
     (case append_reading name_pm25 pm25_bp pm25 [] of Inl e \<Rightarrow> Inl e | Inr l1 \<Rightarrow>
     (case append_reading name_pm10 pm10_bp pm10 l1 of Inl e \<Rightarrow> Inl e | Inr l2 \<Rightarrow>
     (case append_reading name_co co_bp co l2 of Inl e \<Rightarrow> Inl e | Inr l3 \<Rightarrow>
     (case append_reading name_o3 o3_bp o3 l3 of Inl e \<Rightarrow> Inl e | Inr l4 \<Rightarrow>
      append_reading name_no2 no2_bp no2 l4))))"

definition aggregate :: "(string \<times> rat) list \<Rightarrow> error + int \<times> string" where
  \<comment> \<open>Lines 67 to 73 of \<^verbatim>\<open>get_aqi\<close>, on the list built before.\<close>
  "aggregate l =
     (if l = [] then Inr (0, ''No data'')
      else (case py_max (map snd l) of Inl e \<Rightarrow> Inl e | Inr overall_aqi \<Rightarrow>
           (case index0 (map fst (filter (\<lambda>(pol, val). val = overall_aqi) l)) of
              Inl e \<Rightarrow> Inl e
            | Inr main_pollutant \<Rightarrow> Inr (py_round overall_aqi, main_pollutant))))"

definition get_aqi ::
  "rat option \<Rightarrow> rat option \<Rightarrow> rat option \<Rightarrow> rat option \<Rightarrow> rat option
     \<Rightarrow> error + int \<times> string"
where
  "get_aqi pm25 pm10 co o3 no2 =
     (case aqi_list pm25 pm10 co o3 no2 of Inl e \<Rightarrow> Inl e | Inr l \<Rightarrow> aggregate l)"

subsection \<open>Category and colour\<close>

text \<open>The \<^verbatim>\<open>if aqi <= 50: ... elif ... else\<close> chain of the button handler, which sets
  the variables \<^verbatim>\<open>category\<close> and \<^verbatim>\<open>color\<close>; the pair of both is returned.\<close>

definition category_color :: "int \<Rightarrow> string \<times> string" where
  "category_color aqi =
     (if aqi \<le> 50 then (''Good'', ''#00e400'')
      else if aqi \<le> 100 then (''Moderate'', ''#ffff00'')
      else if aqi \<le> 150 then (''Unhealthy for Sensitive Groups'', ''#ff7e00'')
      else if aqi \<le> 200 then (''Unhealthy'', ''#ff0000'')
      else if aqi \<le> 300 then (''Very Unhealthy'', ''#8f3f97'')
      else (''Hazardous'', ''#7e0023''))"

subsection \<open>The supplied readings\<close>

text \<open>
  The five blocks of \<^verbatim>\<open>get_aqi\<close> are visited in the order PM2.5, PM10, CO, ozone,
  nitrogen dioxide; a block whose argument is \<^verbatim>\<open>None\<close> is skipped. The list
  \<open>supplied\<close> holds, in that order, the readings that are present, each with the name and
  the table its block uses. An entry \<open>(name, v)\<close> is the sub-index of a reading when it
  carries the reading's name and \<^verbatim>\<open>calculate_sub_aqi\<close> returns \<open>v\<close> on the reading's
  concentration and table.
\<close>

definition reading ::
  "string \<Rightarrow> band list \<Rightarrow> rat option \<Rightarrow> (string \<times> band list \<times> rat) list"
where
  "reading name bp x = (case x of None \<Rightarrow> [] | Some c \<Rightarrow> [(name, bp, c)])"

definition supplied ::
  "rat option \<Rightarrow> rat option \<Rightarrow> rat option \<Rightarrow> rat option \<Rightarrow> rat option
     \<Rightarrow> (string \<times> band list \<times> rat) list"
where
  "supplied pm25 pm10 co o3 no2 =
     reading name_pm25 pm25_bp pm25 @ reading name_pm10 pm10_bp pm10
     @ reading name_co co_bp co @ reading name_o3 o3_bp o3 @ reading name_no2 no2_bp no2"

definition is_sub_index :: "string \<times> band list \<times> rat \<Rightarrow> string \<times> rat \<Rightarrow> bool" where
  "is_sub_index r e =
     (case r of (name, bp, c) \<Rightarrow> case e of (name', v) \<Rightarrow>
        name' = name \<and> calculate_sub_aqi c bp = Inr v)"

section \<open>Closed forms of the sub-index on the five tables\<close>

text \<open>
  On each table of \<^verbatim>\<open>get_aqi\<close> the scan never raises: the table is not empty and no
  band has width zero. The lemmas below give the value of \<^const>\<open>calculate_sub_aqi\<close> on
  each table as a chain of cases in table order.
\<close>

lemma calculate_sub_aqi_pm25:
  "calculate_sub_aqi C pm25_bp = Inr
     (if 0 \<le> C \<and> C \<le> 12 then 0 + (50 - 0) * (C - 0) / (12 - 0)
      else if 12.1 \<le> C \<and> C \<le> 35.4 then 51 + (100 - 51) * (C - 12.1) / (35.4 - 12.1)
      else if 35.5 \<le> C \<and> C \<le> 55.4 then 101 + (150 - 101) * (C - 35.5) / (55.4 - 35.5)
      else if 55.5 \<le> C \<and> C \<le> 150.4 then 151 + (200 - 151) * (C - 55.5) / (150.4 - 55.5)
      else if 150.5 \<le> C \<and> C \<le> 250.4 then 201 + (300 - 201) * (C - 150.5) / (250.4 - 150.5)
      else if 250.5 \<le> C \<and> C \<le> 500.4 then 301 + (500 - 301) * (C - 250.5) / (500.4 - 250.5)
      else if 500.4 < C then 500 else 0)"
  by (simp add: calculate_sub_aqi_def pm25_bp_def true_div_def)

lemma calculate_sub_aqi_pm10:
  "calculate_sub_aqi C pm10_bp = Inr
     (if 0 \<le> C \<and> C \<le> 54 then 0 + (50 - 0) * (C - 0) / (54 - 0)
      else if 55 \<le> C \<and> C \<le> 154 then 51 + (100 - 51) * (C - 55) / (154 - 55)
      else if 155 \<le> C \<and> C \<le> 254 then 101 + (150 - 101) * (C - 155) / (254 - 155)
      else if 255 \<le> C \<and> C \<le> 354 then 151 + (200 - 151) * (C - 255) / (354 - 255)
      else if 355 \<le> C \<and> C \<le> 424 then 201 + (300 - 201) * (C - 355) / (424 - 355)
      else if 425 \<le> C \<and> C \<le> 604 then 301 + (500 - 301) * (C - 425) / (604 - 425)
      else if 604 < C then 500 else 0)"
  by (simp add: calculate_sub_aqi_def pm10_bp_def true_div_def)

lemma calculate_sub_aqi_co:
  "calculate_sub_aqi C co_bp = Inr
     (if 0 \<le> C \<and> C \<le> 4.4 then 0 + (50 - 0) * (C - 0) / (4.4 - 0)
      else if 4.5 \<le> C \<and> C \<le> 9.4 then 51 + (100 - 51) * (C - 4.5) / (9.4 - 4.5)
      else if 9.5 \<le> C \<and> C \<le> 12.4 then 101 + (150 - 101) * (C - 9.5) / (12.4 - 9.5)
      else if 12.5 \<le> C \<and> C \<le> 15.4 then 151 + (200 - 151) * (C - 12.5) / (15.4 - 12.5)
      else if 15.5 \<le> C \<and> C \<le> 30.4 then 201 + (300 - 201) * (C - 15.5) / (30.4 - 15.5)
      else if 30.5 \<le> C \<and> C \<le> 50.4 then 301 + (500 - 301) * (C - 30.5) / (50.4 - 30.5)
      else if 50.4 < C then 500 else 0)"
  by (simp add: calculate_sub_aqi_def co_bp_def true_div_def)

lemma calculate_sub_aqi_o3:
  "calculate_sub_aqi C o3_bp = Inr
     (if 0 \<le> C \<and> C \<le> 54 then 0 + (50 - 0) * (C - 0) / (54 - 0)
      else if 55 \<le> C \<and> C \<le> 70 then 51 + (100 - 51) * (C - 55) / (70 - 55)
      else if 71 \<le> C \<and> C \<le> 85 then 101 + (150 - 101) * (C - 71) / (85 - 71)
      else if 86 \<le> C \<and> C \<le> 105 then 151 + (200 - 151) * (C - 86) / (105 - 86)
      else if 106 \<le> C \<and> C \<le> 200 then 201 + (300 - 201) * (C - 106) / (200 - 106)
      else if 201 \<le> C \<and> C \<le> 604 then 301 + (500 - 301) * (C - 201) / (604 - 201)
      else if 604 < C then 500 else 0)"
  by (simp add: calculate_sub_aqi_def o3_bp_def true_div_def)

lemma calculate_sub_aqi_no2:
  "calculate_sub_aqi C no2_bp = Inr
     (if 0 \<le> C \<and> C \<le> 53 then 0 + (50 - 0) * (C - 0) / (53 - 0)
      else if 54 \<le> C \<and> C \<le> 100 then 51 + (100 - 51) * (C - 54) / (100 - 54)
      else if 101 \<le> C \<and> C \<le> 360 then 101 + (150 - 101) * (C - 101) / (360 - 101)
      else if 361 \<le> C \<and> C \<le> 649 then 151 + (200 - 151) * (C - 361) / (649 - 361)
      else if 650 \<le> C \<and> C \<le> 1249 then 201 + (300 - 201) * (C - 650) / (1249 - 650)
      else if 1250 \<le> C \<and> C \<le> 2049 then 301 + (500 - 301) * (C - 1250) / (2049 - 1250)
      else if 2049 < C then 500 else 0)"
  by (simp add: calculate_sub_aqi_def no2_bp_def true_div_def)

section \<open>Helper facts\<close>

subsection \<open>The scan\<close>

lemma sub_aqi_loop_skip:
  "\<forall>(l, h, li, hi) \<in> set pre. \<not> (l \<le> C \<and> C \<le> h)
   \<Longrightarrow> sub_aqi_loop C tbl (pre @ rest) = sub_aqi_loop C tbl rest"
  by (induction pre) auto

lemma table_top:
  "fst (snd (last pm25_bp)) = 500.4" "fst (snd (last pm10_bp)) = 604"
  "fst (snd (last co_bp)) = 50.4" "fst (snd (last o3_bp)) = 604"
  "fst (snd (last no2_bp)) = 2049"
  by (simp_all add: pm25_bp_def pm10_bp_def co_bp_def o3_bp_def no2_bp_def)

lemma above_top_500:
  assumes "bp \<in> {pm25_bp, pm10_bp, co_bp, o3_bp, no2_bp}" and "fst (snd (last bp)) < C"
  shows "calculate_sub_aqi C bp = Inr 500"
proof -
  from assms(1) consider "bp = pm25_bp" | "bp = pm10_bp" | "bp = co_bp" | "bp = o3_bp"
    | "bp = no2_bp"
    by (elim insertE emptyE)
  then show ?thesis
  proof cases
    case 1
    with assms(2) show ?thesis by (simp add: table_top calculate_sub_aqi_pm25)
  next
    case 2
    with assms(2) show ?thesis by (simp add: table_top calculate_sub_aqi_pm10)
  next
    case 3
    with assms(2) show ?thesis by (simp add: table_top calculate_sub_aqi_co)
  next
    case 4
    with assms(2) show ?thesis by (simp add: table_top calculate_sub_aqi_o3)
  next
    case 5
    with assms(2) show ?thesis by (simp add: table_top calculate_sub_aqi_no2)
  qed
qed

subsection \<open>Bands and gaps of the five tables\<close>

lemma interp_mono:
  fixes low_c high_c low_i high_i X Y :: rat
  assumes "low_c < high_c" "low_i \<le> high_i" "X \<le> Y"
  shows "low_i + (high_i - low_i) * (X - low_c) / (high_c - low_c)
         \<le> low_i + (high_i - low_i) * (Y - low_c) / (high_c - low_c)"
proof -
  have "(high_i - low_i) * (X - low_c) \<le> (high_i - low_i) * (Y - low_c)"
    using assms by (intro mult_left_mono) auto
  then show ?thesis using assms(1) by (simp add: divide_right_mono)
qed

lemma band_pm25:
  "\<forall>(low_c, high_c, low_i, high_i) \<in> set pm25_bp. low_c \<le> C \<and> C \<le> high_c \<longrightarrow>
     calculate_sub_aqi C pm25_bp
       = Inr (low_i + (high_i - low_i) * (C - low_c) / (high_c - low_c))
     \<and> low_c < high_c \<and> low_i \<le> high_i"
  unfolding calculate_sub_aqi_pm25 by (simp add: pm25_bp_def)

lemma gap_pm25:
  "\<forall>i. Suc i < length pm25_bp \<longrightarrow>
     fst (snd (pm25_bp ! i)) < C \<and> C < fst (pm25_bp ! Suc i) \<longrightarrow>
     calculate_sub_aqi C pm25_bp = Inr 0"
  unfolding calculate_sub_aqi_pm25 by (simp add: pm25_bp_def less_Suc_eq all_conj_distrib)

lemma band_pm10:
  "\<forall>(low_c, high_c, low_i, high_i) \<in> set pm10_bp. low_c \<le> C \<and> C \<le> high_c \<longrightarrow>
     calculate_sub_aqi C pm10_bp
       = Inr (low_i + (high_i - low_i) * (C - low_c) / (high_c - low_c))
     \<and> low_c < high_c \<and> low_i \<le> high_i"
  unfolding calculate_sub_aqi_pm10 by (simp add: pm10_bp_def)

lemma gap_pm10:
  "\<forall>i. Suc i < length pm10_bp \<longrightarrow>
     fst (snd (pm10_bp ! i)) < C \<and> C < fst (pm10_bp ! Suc i) \<longrightarrow>
     calculate_sub_aqi C pm10_bp = Inr 0"
  unfolding calculate_sub_aqi_pm10 by (simp add: pm10_bp_def less_Suc_eq all_conj_distrib)

lemma band_co:
  "\<forall>(low_c, high_c, low_i, high_i) \<in> set co_bp. low_c \<le> C \<and> C \<le> high_c \<longrightarrow>
     calculate_sub_aqi C co_bp
       = Inr (low_i + (high_i - low_i) * (C - low_c) / (high_c - low_c))
     \<and> low_c < high_c \<and> low_i \<le> high_i"
  unfolding calculate_sub_aqi_co by (simp add: co_bp_def)

lemma gap_co:
  "\<forall>i. Suc i < length co_bp \<longrightarrow>
     fst (snd (co_bp ! i)) < C \<and> C < fst (co_bp ! Suc i) \<longrightarrow>
     calculate_sub_aqi C co_bp = Inr 0"
  unfolding calculate_sub_aqi_co by (simp add: co_bp_def less_Suc_eq all_conj_distrib)

lemma band_o3:
  "\<forall>(low_c, high_c, low_i, high_i) \<in> set o3_bp. low_c \<le> C \<and> C \<le> high_c \<longrightarrow>
     calculate_sub_aqi C o3_bp
       = Inr (low_i + (high_i - low_i) * (C - low_c) / (high_c - low_c))
     \<and> low_c < high_c \<and> low_i \<le> high_i"
  unfolding calculate_sub_aqi_o3 by (simp add: o3_bp_def)

lemma gap_o3:
  "\<forall>i. Suc i < length o3_bp \<longrightarrow>
     fst (snd (o3_bp ! i)) < C \<and> C < fst (o3_bp ! Suc i) \<longrightarrow>
     calculate_sub_aqi C o3_bp = Inr 0"
  unfolding calculate_sub_aqi_o3 by (simp add: o3_bp_def less_Suc_eq all_conj_distrib)

lemma band_no2:
  "\<forall>(low_c, high_c, low_i, high_i) \<in> set no2_bp. low_c \<le> C \<and> C \<le> high_c \<longrightarrow>
     calculate_sub_aqi C no2_bp
       = Inr (low_i + (high_i - low_i) * (C - low_c) / (high_c - low_c))
     \<and> low_c < high_c \<and> low_i \<le> high_i"
  unfolding calculate_sub_aqi_no2 by (simp add: no2_bp_def)

lemma gap_no2:
  "\<forall>i. Suc i < length no2_bp \<longrightarrow>
     fst (snd (no2_bp ! i)) < C \<and> C < fst (no2_bp ! Suc i) \<longrightarrow>
     calculate_sub_aqi C no2_bp = Inr 0"
  unfolding calculate_sub_aqi_no2 by (simp add: no2_bp_def less_Suc_eq all_conj_distrib)

lemma band_of_table:
  assumes "bp \<in> {pm25_bp, pm10_bp, co_bp, o3_bp, no2_bp}"
    and "(low_c, high_c, low_i, high_i) \<in> set bp" and "low_c \<le> C" and "C \<le> high_c"
  shows "calculate_sub_aqi C bp
           = Inr (low_i + (high_i - low_i) * (C - low_c) / (high_c - low_c))
         \<and> low_c < high_c \<and> low_i \<le> high_i"
proof -
  from assms(1) consider "bp = pm25_bp" | "bp = pm10_bp" | "bp = co_bp" | "bp = o3_bp"
    | "bp = no2_bp"
    by (elim insertE emptyE)
  then show ?thesis
  proof cases
    case 1
    with band_pm25 [of C] assms(2-4) show ?thesis by blast
  next
    case 2
    with band_pm10 [of C] assms(2-4) show ?thesis by blast
  next
    case 3
    with band_co [of C] assms(2-4) show ?thesis by blast
  next
    case 4
    with band_o3 [of C] assms(2-4) show ?thesis by blast
  next
    case 5
    with band_no2 [of C] assms(2-4) show ?thesis by blast
  qed
qed

lemma gap_of_table:
  assumes "bp \<in> {pm25_bp, pm10_bp, co_bp, o3_bp, no2_bp}"
    and "Suc i < length bp" and "fst (snd (bp ! i)) < C" and "C < fst (bp ! Suc i)"
  shows "calculate_sub_aqi C bp = Inr 0"
proof -
  from assms(1) consider "bp = pm25_bp" | "bp = pm10_bp" | "bp = co_bp" | "bp = o3_bp"
    | "bp = no2_bp"
    by (elim insertE emptyE)
  then show ?thesis
  proof cases
    case 1
    with gap_pm25 [of C] assms(2-4) show ?thesis by blast
  next
    case 2
    with gap_pm10 [of C] assms(2-4) show ?thesis by blast
  next
    case 3
    with gap_co [of C] assms(2-4) show ?thesis by blast
  next
    case 4
    with gap_o3 [of C] assms(2-4) show ?thesis by blast
  next
    case 5
    with gap_no2 [of C] assms(2-4) show ?thesis by blast
  qed
qed

subsection \<open>The list of sub-indices\<close>

lemma table_total:
  assumes "bp \<in> {pm25_bp, pm10_bp, co_bp, o3_bp, no2_bp}"
  shows "\<exists>v. calculate_sub_aqi c bp = Inr v"
proof -
  from assms consider "bp = pm25_bp" | "bp = pm10_bp" | "bp = co_bp" | "bp = o3_bp" | "bp = no2_bp"
    by (elim insertE emptyE)
  then show ?thesis
  proof cases
    case 1
    show ?thesis unfolding 1 by (rule exI, rule calculate_sub_aqi_pm25)
  next
    case 2
    show ?thesis unfolding 2 by (rule exI, rule calculate_sub_aqi_pm10)
  next
    case 3
    show ?thesis unfolding 3 by (rule exI, rule calculate_sub_aqi_co)
  next
    case 4
    show ?thesis unfolding 4 by (rule exI, rule calculate_sub_aqi_o3)
  next
    case 5
    show ?thesis unfolding 5 by (rule exI, rule calculate_sub_aqi_no2)
  qed
qed

lemma append_reading_sub_index:
  assumes "bp \<in> {pm25_bp, pm10_bp, co_bp, o3_bp, no2_bp}"
  shows "\<exists>e. append_reading name bp x acc = Inr (acc @ e) \<and> list_all2 is_sub_index (reading name bp x) e"
proof (cases x)
  case None
  then show ?thesis by (simp add: reading_def)
next
  case (Some c)
  from table_total [OF assms] obtain v where "calculate_sub_aqi c bp = Inr v" by blast
  with Some show ?thesis by (simp add: reading_def is_sub_index_def)
qed

lemma aqi_list_sub_indices:
  "\<exists>l. aqi_list pm25 pm10 co o3 no2 = Inr l \<and> list_all2 is_sub_index (supplied pm25 pm10 co o3 no2) l"
proof -
  obtain e1 where 1: "append_reading name_pm25 pm25_bp pm25 [] = Inr ([] @ e1)"
      "list_all2 is_sub_index (reading name_pm25 pm25_bp pm25) e1"
    using append_reading_sub_index [of pm25_bp] by blast
  obtain e2 where 2: "append_reading name_pm10 pm10_bp pm10 e1 = Inr (e1 @ e2)"
      "list_all2 is_sub_index (reading name_pm10 pm10_bp pm10) e2"
    using append_reading_sub_index [of pm10_bp] by blast
  obtain e3 where 3: "append_reading name_co co_bp co (e1 @ e2) = Inr ((e1 @ e2) @ e3)"
      "list_all2 is_sub_index (reading name_co co_bp co) e3"
    using append_reading_sub_index [of co_bp] by blast
  obtain e4 where 4: "append_reading name_o3 o3_bp o3 ((e1 @ e2) @ e3) = Inr (((e1 @ e2) @ e3) @ e4)"
      "list_all2 is_sub_index (reading name_o3 o3_bp o3) e4"
    using append_reading_sub_index [of o3_bp] by blast
  obtain e5 where 5: "append_reading name_no2 no2_bp no2 (((e1 @ e2) @ e3) @ e4) = Inr ((((e1 @ e2) @ e3) @ e4) @ e5)"
      "list_all2 is_sub_index (reading name_no2 no2_bp no2) e5"
    using append_reading_sub_index [of no2_bp] by blast
  have "aqi_list pm25 pm10 co o3 no2 = Inr (e1 @ e2 @ e3 @ e4 @ e5)"
    using 1(1) 2(1) 3(1) 4(1) 5(1) by (simp add: aqi_list_def)
  moreover have "list_all2 is_sub_index (supplied pm25 pm10 co o3 no2) (e1 @ e2 @ e3 @ e4 @ e5)"
    unfolding supplied_def
    by (intro list_all2_appendI 1(2) 2(2) 3(2) 4(2) 5(2))
  ultimately show ?thesis by blast
qed

lemma foldl_max: "foldl (\<lambda>m v. if m < v then v else m) (x::rat) xs = Max (set (x # xs))"
proof (induction xs arbitrary: x)
  case Nil
  then show ?case by simp
next
  case (Cons y ys)
  have "(if x < y then y else x) = max x y" by (simp add: max_def)
  then have "foldl (\<lambda>m v. if m < v then v else m) x (y # ys) = Max (set (max x y # ys))"
    using Cons.IH [of "max x y"] by simp
  also have "\<dots> = Max (set (x # y # ys))"
    by (cases "ys = []") (simp_all add: max.assoc)
  finally show ?case .
qed

lemma py_max_Max: "xs \<noteq> [] \<Longrightarrow> py_max xs = Inr (Max (set xs))"
  by (cases xs) (simp_all add: foldl_max)

lemma filter_first:
  "m \<in> snd ` set l \<Longrightarrow>
   \<exists>pre p post. l = pre @ (p, m) # post \<and> (\<forall>(q, w) \<in> set pre. w \<noteq> m)
      \<and> filter (\<lambda>(pol, val). val = m) l = (p, m) # filter (\<lambda>(pol, val). val = m) post"
proof (induction l)
  case Nil
  then show ?case by simp
next
  case (Cons a l)
  obtain q w where a: "a = (q, w)" by (cases a)
  show ?case
  proof (cases "w = m")
    case True
    have "a # l = [] @ (q, m) # l" using a True by simp
    moreover have "\<forall>(q, w) \<in> set []. w \<noteq> m" by simp
    moreover have "filter (\<lambda>(pol, val). val = m) (a # l) = (q, m) # filter (\<lambda>(pol, val). val = m) l"
      using a True by simp
    ultimately show ?thesis by (intro exI conjI)
  next
    case False
    with Cons.prems a have "m \<in> snd ` set l" by auto
    from Cons.IH [OF this] obtain pre p post where
      l: "l = pre @ (p, m) # post" and pre: "\<forall>(q, w) \<in> set pre. w \<noteq> m"
      and flt: "filter (\<lambda>(pol, val). val = m) l = (p, m) # filter (\<lambda>(pol, val). val = m) post"
      by blast
    have "a # l = (a # pre) @ (p, m) # post" using l by simp
    moreover have "\<forall>(q, w) \<in> set (a # pre). w \<noteq> m" using pre a False by simp
    moreover have "filter (\<lambda>(pol, val). val = m) (a # l) = (p, m) # filter (\<lambda>(pol, val). val = m) post"
      using flt a False by simp
    ultimately show ?thesis by (intro exI conjI)
  qed
qed

lemma aggregate_first_max:
  assumes "l \<noteq> []"
  shows "\<exists>pre p post. l = pre @ (p, Max (snd ` set l)) # post
     \<and> (\<forall>(q, w) \<in> set pre. w < Max (snd ` set l))
     \<and> (\<forall>(q, w) \<in> set post. w \<le> Max (snd ` set l))
     \<and> aggregate l = Inr (py_round (Max (snd ` set l)), p)"
proof -
  define m where "m = Max (snd ` set l)"
  have fin: "finite (snd ` set l)" and ne: "snd ` set l \<noteq> {}" using assms by simp_all
  have mx: "py_max (map snd l) = Inr m" using assms by (simp add: py_max_Max m_def)
  have "m \<in> snd ` set l" unfolding m_def using fin ne by (rule Max_in)
  from filter_first [OF this] obtain pre p post where
    l: "l = pre @ (p, m) # post" and pre: "\<forall>(q, w) \<in> set pre. w \<noteq> m"
    and flt: "filter (\<lambda>(pol, val). val = m) l = (p, m) # filter (\<lambda>(pol, val). val = m) post"
    by blast
  have le: "w \<le> m" if "(q, w) \<in> set l" for q w
  proof -
    from that have "w \<in> snd ` set l" by force
    with fin show ?thesis unfolding m_def by (rule Max_ge)
  qed
  have "\<forall>(q, w) \<in> set pre. w < m"
  proof clarify
    fix q w assume qw: "(q, w) \<in> set pre"
    then have "(q, w) \<in> set l" by (simp add: l)
    then have "w \<le> m" by (rule le)
    moreover have "w \<noteq> m" using pre qw by blast
    ultimately show "w < m" by simp
  qed
  moreover have "\<forall>(q, w) \<in> set post. w \<le> m"
  proof clarify
    fix q w assume "(q, w) \<in> set post"
    then have "(q, w) \<in> set l" by (simp add: l)
    then show "w \<le> m" by (rule le)
  qed
  moreover have "aggregate l = Inr (py_round m, p)"
    using assms mx flt by (simp add: aggregate_def index0_def)
  ultimately show ?thesis using l unfolding m_def [symmetric] by blast
qed


subsection \<open>Maximum, dominant pollutant and rounding\<close>

lemma supplied_nonempty:
  "\<not> (pm25 = None \<and> pm10 = None \<and> co = None \<and> o3 = None \<and> no2 = None)
   \<Longrightarrow> supplied pm25 pm10 co o3 no2 \<noteq> []"
  by (auto simp: supplied_def reading_def split: option.splits)

lemma find_first:
  "\<forall>x \<in> set pre. \<not> P x \<Longrightarrow> P y \<Longrightarrow> List.find P (pre @ y # post) = Some y"
  by (induction pre) simp_all

lemma py_round_nearest: "\<bar>of_int (py_round x) - x\<bar> \<le> 1 / 2"
proof -
  have "of_int \<lfloor>x\<rfloor> \<le> x" and "x < of_int \<lfloor>x\<rfloor> + 1" by linarith+
  then show ?thesis unfolding py_round_def Let_def by (simp add: abs_le_iff)
qed

lemma get_aqi_first_max:
  assumes "\<not> (pm25 = None \<and> pm10 = None \<and> co = None \<and> o3 = None \<and> no2 = None)"
  shows "\<exists>pre p v post.
           list_all2 is_sub_index (supplied pm25 pm10 co o3 no2) (pre @ (p, v) # post)
           \<and> v = Max (snd ` set (pre @ (p, v) # post))
           \<and> (\<forall>(q, w) \<in> set pre. w < v) \<and> (\<forall>(q, w) \<in> set post. w \<le> v)
           \<and> get_aqi pm25 pm10 co o3 no2 = Inr (py_round v, p)"
proof -
  obtain l where l: "aqi_list pm25 pm10 co o3 no2 = Inr l"
    and sub: "list_all2 is_sub_index (supplied pm25 pm10 co o3 no2) l"
    using aqi_list_sub_indices by blast
  from supplied_nonempty [OF assms] sub have "l \<noteq> []" by auto
  from aggregate_first_max [OF this] obtain pre p post where
    *: "l = pre @ (p, Max (snd ` set l)) # post"
       "\<forall>(q, w) \<in> set pre. w < Max (snd ` set l)"
       "\<forall>(q, w) \<in> set post. w \<le> Max (snd ` set l)"
       "aggregate l = Inr (py_round (Max (snd ` set l)), p)"
    by blast
  define v where "v = Max (snd ` set l)"
  have l': "l = pre @ (p, v) # post" using *(1) by (simp only: v_def)
  have "list_all2 is_sub_index (supplied pm25 pm10 co o3 no2) (pre @ (p, v) # post)"
    using sub l' by simp
  moreover have "v = Max (snd ` set (pre @ (p, v) # post))" using v_def l' by simp
  moreover have "\<forall>(q, w) \<in> set pre. w < v" using *(2) by (simp only: v_def)
  moreover have "\<forall>(q, w) \<in> set post. w \<le> v" using *(3) by (simp only: v_def)
  moreover have "get_aqi pm25 pm10 co o3 no2 = Inr (py_round v, p)"
    using l *(4) by (simp add: get_aqi_def v_def)
  ultimately show ?thesis by blast
qed

lemma py_round_67: "py_round (15656 / 233) = 67" "py_round (202 / 3) = 67"
proof -
  have "\<lfloor>15656 / 233 :: rat\<rfloor> = 67" by (rule floor_unique) simp_all
  then show "py_round (15656 / 233) = 67" by (simp add: py_round_def Let_def)
  have "\<lfloor>202 / 3 :: rat\<rfloor> = 67" by (rule floor_unique) simp_all
  then show "py_round (202 / 3) = 67" by (simp add: py_round_def Let_def)
qed

lemma aqi_list_example:
  "aqi_list (Some 19.8) None None (Some 60) None
     = Inr [(name_pm25, 15656 / 233), (name_o3, 202 / 3)]"
  by (simp add: aqi_list_def calculate_sub_aqi_pm25 calculate_sub_aqi_o3)

lemma get_aqi_example:
  "get_aqi (Some 19.8) None None (Some 60) None = Inr (67, name_o3)"
proof -
  have "aggregate [(name_pm25, 15656 / 233), (name_o3, 202 / 3)]
          = Inr (py_round (202 / 3), name_o3)"
    by (simp add: aggregate_def index0_def)
  moreover have "get_aqi (Some 19.8) None None (Some 60) None
      = aggregate [(name_pm25, 15656 / 233), (name_o3, 202 / 3)]"
    unfolding get_aqi_def aqi_list_example by simp
  ultimately show ?thesis by (simp only: py_round_67)
qed

lemma py_round_examples:
  "py_round (18204 / 233) = 78" "py_round 50 = 50" "py_round (25 / 2) = 12"
  "py_round (75 / 2) = 38" "py_round (125 / 11) = 11"
proof -
  have "\<lfloor>18204 / 233 :: rat\<rfloor> = 78" by (rule floor_unique) simp_all
  then show "py_round (18204 / 233) = 78" by (simp add: py_round_def Let_def)
  show "py_round 50 = 50" by (simp add: py_round_def Let_def)
  have "\<lfloor>25 / 2 :: rat\<rfloor> = 12" by (rule floor_unique) simp_all
  then show "py_round (25 / 2) = 12" by (simp add: py_round_def Let_def)
  have "\<lfloor>75 / 2 :: rat\<rfloor> = 37" by (rule floor_unique) simp_all
  then show "py_round (75 / 2) = 38" by (simp add: py_round_def Let_def)
  have "\<lfloor>125 / 11 :: rat\<rfloor> = 11" by (rule floor_unique) simp_all
  then show "py_round (125 / 11) = 11" by (simp add: py_round_def Let_def)
qed

lemma get_aqi_defaults:
  "get_aqi (Some 25) (Some 54) (Some 1) (Some 60) (Some 40) = Inr (78, name_pm25)"
proof -
  have "aqi_list (Some 25) (Some 54) (Some 1) (Some 60) (Some 40)
      = Inr [(name_pm25, 18204 / 233), (name_pm10, 50), (name_co, 125 / 11),
             (name_o3, 202 / 3), (name_no2, 2000 / 53)]"
    by (simp add: aqi_list_def calculate_sub_aqi_pm25 calculate_sub_aqi_pm10
        calculate_sub_aqi_co calculate_sub_aqi_o3 calculate_sub_aqi_no2)
  moreover have "aggregate [(name_pm25, 18204 / 233), (name_pm10, 50), (name_co, 125 / 11),
             (name_o3, 202 / 3), (name_no2, 2000 / 53)] = Inr (py_round (18204 / 233), name_pm25)"
    by (simp add: aggregate_def index0_def)
  ultimately show ?thesis by (simp add: get_aqi_def py_round_examples)
qed

lemma get_aqi_later_maximum:
  "get_aqi (Some 5) None None (Some 60) None = Inr (67, name_o3)"
proof -
  have "aqi_list (Some 5) None None (Some 60) None
      = Inr [(name_pm25, 125 / 6), (name_o3, 202 / 3)]"
    by (simp add: aqi_list_def calculate_sub_aqi_pm25 calculate_sub_aqi_o3)
  moreover have "aggregate [(name_pm25, 125 / 6), (name_o3, 202 / 3)]
      = Inr (py_round (202 / 3), name_o3)"
    by (simp add: aggregate_def index0_def)
  ultimately show ?thesis by (simp add: get_aqi_def py_round_67)
qed

lemma get_aqi_tie:
  "get_aqi None (Some 54) None (Some 54) (Some 53) = Inr (50, name_pm10)"
  "get_aqi (Some 12) (Some 54) None None None = Inr (50, name_pm25)"
proof -
  have "aqi_list None (Some 54) None (Some 54) (Some 53)
      = Inr [(name_pm10, 50), (name_o3, 50), (name_no2, 50)]"
    by (simp add: aqi_list_def calculate_sub_aqi_pm10 calculate_sub_aqi_o3 calculate_sub_aqi_no2)
  moreover have "aggregate [(name_pm10, 50), (name_o3, 50), (name_no2, 50)]
      = Inr (py_round 50, name_pm10)"
    by (simp add: aggregate_def index0_def)
  ultimately show "get_aqi None (Some 54) None (Some 54) (Some 53) = Inr (50, name_pm10)"
    by (simp add: get_aqi_def py_round_examples)
  have "aqi_list (Some 12) (Some 54) None None None = Inr [(name_pm25, 50), (name_pm10, 50)]"
    by (simp add: aqi_list_def calculate_sub_aqi_pm25 calculate_sub_aqi_pm10)
  moreover have "aggregate [(name_pm25, 50), (name_pm10, 50)] = Inr (py_round 50, name_pm25)"
    by (simp add: aggregate_def index0_def)
  ultimately show "get_aqi (Some 12) (Some 54) None None None = Inr (50, name_pm25)"
    by (simp add: get_aqi_def py_round_examples)
qed

lemma get_aqi_single:
  "get_aqi (Some 3) None None None None = Inr (12, name_pm25)"
  "get_aqi (Some 9) None None None None = Inr (38, name_pm25)"
proof -
  have "aqi_list (Some 3) None None None None = Inr [(name_pm25, 25 / 2)]"
    by (simp add: aqi_list_def calculate_sub_aqi_pm25)
  moreover have "aggregate [(name_pm25, 25 / 2)] = Inr (py_round (25 / 2), name_pm25)"
    by (simp add: aggregate_def index0_def)
  ultimately show "get_aqi (Some 3) None None None None = Inr (12, name_pm25)"
    by (simp add: get_aqi_def py_round_examples)
  have "aqi_list (Some 9) None None None None = Inr [(name_pm25, 75 / 2)]"
    by (simp add: aqi_list_def calculate_sub_aqi_pm25)
  moreover have "aggregate [(name_pm25, 75 / 2)] = Inr (py_round (75 / 2), name_pm25)"
    by (simp add: aggregate_def index0_def)
  ultimately show "get_aqi (Some 9) None None None None = Inr (38, name_pm25)"
    by (simp add: get_aqi_def py_round_examples)
qed

section \<open>The breakpoint tables\<close>

text \<open>
  Claim C3. Each of the five breakpoint tables of \<^verbatim>\<open>get_aqi\<close> has exactly six bands,
  the index ranges of the bands are [0,50], [51,100], [101,150], [151,200], [201,300],
  [301,500] for every pollutant, and the concentration boundaries are the decimal numbers
  of the specification's table: PM2.5 0-12, 12.1-35.4, 35.5-55.4, 55.5-150.4, 150.5-250.4,
  250.5-500.4; PM10 0-54, 55-154, 155-254, 255-354, 355-424, 425-604; CO 0-4.4, 4.5-9.4,
  9.5-12.4, 12.5-15.4, 15.5-30.4, 30.5-50.4; ozone 0-54, 55-70, 71-85, 86-105, 106-200,
  201-604; nitrogen dioxide 0-53, 54-100, 101-360, 361-649, 650-1249, 1250-2049. The
  source writes the same decimal literals, so the doubles they are read as are the same.
\<close>

theorem breakpoint_tables_as_specified:
  "length pm25_bp = 6 \<and> length pm10_bp = 6 \<and> length co_bp = 6
   \<and> length o3_bp = 6 \<and> length no2_bp = 6
   \<and> map (\<lambda>(low_c, high_c, low_i, high_i). (low_i, high_i)) pm25_bp
       = [(0, 50), (51, 100), (101, 150), (151, 200), (201, 300), (301, 500)]
   \<and> map (\<lambda>(low_c, high_c, low_i, high_i). (low_i, high_i)) pm10_bp
       = [(0, 50), (51, 100), (101, 150), (151, 200), (201, 300), (301, 500)]
   \<and> map (\<lambda>(low_c, high_c, low_i, high_i). (low_i, high_i)) co_bp
       = [(0, 50), (51, 100), (101, 150), (151, 200), (201, 300), (301, 500)]
   \<and> map (\<lambda>(low_c, high_c, low_i, high_i). (low_i, high_i)) o3_bp
       = [(0, 50), (51, 100), (101, 150), (151, 200), (201, 300), (301, 500)]
   \<and> map (\<lambda>(low_c, high_c, low_i, high_i). (low_i, high_i)) no2_bp
       = [(0, 50), (51, 100), (101, 150), (151, 200), (201, 300), (301, 500)]
   \<and> map (\<lambda>(low_c, high_c, low_i, high_i). (low_c, high_c)) pm25_bp
       = [(0, 12), (12.1, 35.4), (35.5, 55.4), (55.5, 150.4), (150.5, 250.4), (250.5, 500.4)]
   \<and> map (\<lambda>(low_c, high_c, low_i, high_i). (low_c, high_c)) pm10_bp
       = [(0, 54), (55, 154), (155, 254), (255, 354), (355, 424), (425, 604)]
   \<and> map (\<lambda>(low_c, high_c, low_i, high_i). (low_c, high_c)) co_bp
       = [(0, 4.4), (4.5, 9.4), (9.5, 12.4), (12.5, 15.4), (15.5, 30.4), (30.5, 50.4)]
   \<and> map (\<lambda>(low_c, high_c, low_i, high_i). (low_c, high_c)) o3_bp
       = [(0, 54), (55, 70), (71, 85), (86, 105), (106, 200), (201, 604)]
   \<and> map (\<lambda>(low_c, high_c, low_i, high_i). (low_c, high_c)) no2_bp
       = [(0, 53), (54, 100), (101, 360), (361, 649), (650, 1249), (1250, 2049)]"
  by (simp add: pm25_bp_def pm10_bp_def co_bp_def o3_bp_def no2_bp_def)

section \<open>Aggregation without readings\<close>

text \<open>
  Claim C6. When none of the five readings is supplied (all arguments \<^verbatim>\<open>None\<close>),
  \<^verbatim>\<open>get_aqi\<close> raises nothing and returns the index 0 with the dominant pollutant
  \<^verbatim>\<open>"No data"\<close>.
\<close>

theorem get_aqi_no_data:
  "get_aqi None None None None None = Inr (0, ''No data'')"
  by (simp add: get_aqi_def aqi_list_def aggregate_def)

section \<open>The worked example PM2.5 = 25.0\<close>

text \<open>
  Claim C7, as the specification states it, says that the PM2.5 sub-index of the
  concentration 25.0 is \<open>50 + (100 - 50) * (25.0 - 12.1) / (35.4 - 12.1)\<close>, about 77.7.
  The band of the table that holds 25.0 is \<^verbatim>\<open>(12.1, 35.4, 51, 100)\<close>: its lower index
  is 51, not 50, and the code does not return the stated value.
\<close>

theorem pm25_example_not_as_stated:
  "calculate_sub_aqi 25.0 pm25_bp \<noteq> Inr (50 + (100 - 50) * (25.0 - 12.1) / (35.4 - 12.1))"
  by (simp add: calculate_sub_aqi_def pm25_bp_def true_div_def)

text \<open>
  Claim C7, amended. For the input PM2.5 = 25.0 the sub-index is
  \<open>51 + (100 - 51) * (25.0 - 12.1) / (35.4 - 12.1)\<close>, that is 18204/233, about 78.1
  (between 78.12 and 78.13); it is the only entry of the list of sub-indices when PM2.5
  is the only reading.
\<close>

theorem pm25_example:
  "calculate_sub_aqi 25.0 pm25_bp = Inr (51 + (100 - 51) * (25.0 - 12.1) / (35.4 - 12.1))
   \<and> calculate_sub_aqi 25.0 pm25_bp = Inr (18204 / 233)
   \<and> 78.12 < (18204 / 233 :: rat) \<and> (18204 / 233 :: rat) < 78.13
   \<and> aqi_list (Some 25.0) None None None None = Inr [(name_pm25, 18204 / 233)]"
  by (simp add: aqi_list_def calculate_sub_aqi_def pm25_bp_def true_div_def)

section \<open>Category and colour of an index\<close>

text \<open>
  Claim C5. The category and the colour are a function of the rounded overall index,
  decided by upper bounds tried in ascending order with \<open>\<le>\<close>: an index up to 50 is Good
  (#00e400), above 50 and up to 100 Moderate (#ffff00), above 100 and up to 150 Unhealthy
  for Sensitive Groups (#ff7e00), above 150 and up to 200 Unhealthy (#ff0000), above 200
  and up to 300 Very Unhealthy (#8f3f97), and every index above 300 Hazardous (#7e0023),
  with no upper cap. In particular 50 is Good, 51 and 100 are Moderate, 101 is Unhealthy
  for Sensitive Groups, 300 is Very Unhealthy and 301 is Hazardous.
\<close>

theorem category_color_bands:
  "(aqi \<le> 50 \<longrightarrow> category_color aqi = (''Good'', ''#00e400''))
   \<and> (50 < aqi \<and> aqi \<le> 100 \<longrightarrow> category_color aqi = (''Moderate'', ''#ffff00''))
   \<and> (100 < aqi \<and> aqi \<le> 150
        \<longrightarrow> category_color aqi = (''Unhealthy for Sensitive Groups'', ''#ff7e00''))
   \<and> (150 < aqi \<and> aqi \<le> 200 \<longrightarrow> category_color aqi = (''Unhealthy'', ''#ff0000''))
   \<and> (200 < aqi \<and> aqi \<le> 300 \<longrightarrow> category_color aqi = (''Very Unhealthy'', ''#8f3f97''))
   \<and> (300 < aqi \<longrightarrow> category_color aqi = (''Hazardous'', ''#7e0023''))
   \<and> category_color 50 = (''Good'', ''#00e400'')
   \<and> category_color 51 = (''Moderate'', ''#ffff00'')
   \<and> category_color 100 = (''Moderate'', ''#ffff00'')
   \<and> category_color 101 = (''Unhealthy for Sensitive Groups'', ''#ff7e00'')
   \<and> category_color 300 = (''Very Unhealthy'', ''#8f3f97'')
   \<and> category_color 301 = (''Hazardous'', ''#7e0023'')"
  by (simp add: category_color_def)

theorem category_color_bands_witness:
  "category_color (-3) = (''Good'', ''#00e400'')
   \<and> category_color 78 = (''Moderate'', ''#ffff00'')
   \<and> category_color 150 = (''Unhealthy for Sensitive Groups'', ''#ff7e00'')
   \<and> category_color 151 = (''Unhealthy'', ''#ff0000'')
   \<and> category_color 201 = (''Very Unhealthy'', ''#8f3f97'')
   \<and> category_color 1000 = (''Hazardous'', ''#7e0023'')"
  using category_color_bands [of "-3"] category_color_bands [of 78]
    category_color_bands [of 150] category_color_bands [of 151]
    category_color_bands [of 201] category_color_bands [of 1000]
  by simp

section \<open>The first matching band\<close>

text \<open>
  Claim C1. The bands are scanned in table order, and the first band
  \<open>(low_c, high_c, low_i, high_i)\<close> with \<open>low_c \<le> C \<le> high_c\<close> decides: the function
  returns exactly \<open>low_i + (high_i - low_i) * (C - low_c) / (high_c - low_c)\<close>. Each band
  has \<open>high_c > low_c\<close> by table construction (section 4.1 of the specification, where
  the formula is given), which is the condition under which the division is defined.
  The statement has two parts. On any table, whatever bands follow the first match and
  whether they hold \<open>C\<close> or not (a misconfigured table with overlapping bands
  included), the band that holds \<open>C\<close> with no band before it holding \<open>C\<close> gives the
  result. On each of the five tables of \<^verbatim>\<open>get_aqi\<close> every band has positive width, and a
  concentration inside a band gets that band's interpolation.
\<close>

theorem calculate_sub_aqi_first_match:
  "((\<forall>(l, h, li, hi) \<in> set pre. \<not> (l \<le> C \<and> C \<le> h))
      \<and> low_c \<le> C \<and> C \<le> high_c \<and> low_c < high_c
     \<longrightarrow> calculate_sub_aqi C (pre @ (low_c, high_c, low_i, high_i) # post)
           = Inr (low_i + (high_i - low_i) * (C - low_c) / (high_c - low_c)))
   \<and> (\<forall>bp \<in> {pm25_bp, pm10_bp, co_bp, o3_bp, no2_bp}.
        \<forall>(l, h, li, hi) \<in> set bp.
          l \<le> C \<and> C \<le> h \<longrightarrow>
            l < h \<and> calculate_sub_aqi C bp = Inr (li + (hi - li) * (C - l) / (h - l)))"
proof (intro conjI impI)
  assume "(\<forall>(l, h, li, hi) \<in> set pre. \<not> (l \<le> C \<and> C \<le> h))
      \<and> low_c \<le> C \<and> C \<le> high_c \<and> low_c < high_c"
  then show "calculate_sub_aqi C (pre @ (low_c, high_c, low_i, high_i) # post)
           = Inr (low_i + (high_i - low_i) * (C - low_c) / (high_c - low_c))"
    by (simp add: calculate_sub_aqi_def sub_aqi_loop_skip true_div_def)
next
  show "\<forall>bp \<in> {pm25_bp, pm10_bp, co_bp, o3_bp, no2_bp}.
        \<forall>(l, h, li, hi) \<in> set bp.
          l \<le> C \<and> C \<le> h \<longrightarrow>
            l < h \<and> calculate_sub_aqi C bp = Inr (li + (hi - li) * (C - l) / (h - l))"
  proof (intro ballI, clarify)
    fix bp l h li hi
    assume "bp \<in> {pm25_bp, pm10_bp, co_bp, o3_bp, no2_bp}" "(l, h, li, hi) \<in> set bp"
      "l \<le> C" "C \<le> h"
    from band_of_table [OF this]
    show "l < h \<and> calculate_sub_aqi C bp = Inr (li + (hi - li) * (C - l) / (h - l))"
      by simp
  qed
qed

theorem calculate_sub_aqi_first_match_witness:
  "\<not> ((0::rat) \<le> 25 \<and> (25::rat) \<le> 12)
   \<and> (12.1::rat) \<le> 25 \<and> (25::rat) \<le> 35.4 \<and> (12.1::rat) < 35.4
   \<and> (20::rat) \<le> 25 \<and> (25::rat) \<le> 30
   \<and> calculate_sub_aqi 25 ([(0, 12, 0, 50)] @ (12.1, 35.4, 51, 100) # [(20, 30, 7, 9)])
       = Inr (51 + (100 - 51) * (25 - 12.1) / (35.4 - 12.1))
   \<and> (55, 70, 51, 100) \<in> set o3_bp \<and> (55::rat) \<le> 60 \<and> (60::rat) \<le> 70
   \<and> calculate_sub_aqi 60 o3_bp = Inr (51 + (100 - 51) * (60 - 55) / (70 - 55))"
proof -
  have before: "\<forall>(l, h, li, hi) \<in> set [(0, 12, 0, 50)]. \<not> (l \<le> (25::rat) \<and> (25::rat) \<le> h)"
    by simp
  have inside: "(12.1::rat) \<le> 25 \<and> (25::rat) \<le> 35.4 \<and> (12.1::rat) < 35.4" by simp
  from calculate_sub_aqi_first_match
    [of "[(0, 12, 0, 50)]" 25 "12.1" "35.4" 51 100 "[(20, 30, 7, 9)]"] before inside
  have a: "calculate_sub_aqi 25 ([(0, 12, 0, 50)] @ (12.1, 35.4, 51, 100) # [(20, 30, 7, 9)])
       = Inr (51 + (100 - 51) * (25 - 12.1) / (35.4 - 12.1))"
    by blast
  have o3: "o3_bp \<in> {pm25_bp, pm10_bp, co_bp, o3_bp, no2_bp}" by simp
  have band: "(55, 70, 51, 100) \<in> set o3_bp" by (simp add: o3_bp_def)
  have le: "(55::rat) \<le> 60 \<and> (60::rat) \<le> 70" by simp
  from calculate_sub_aqi_first_match [of "[(0, 54, 0, 50)]" 60 55 70 51 100 "[]"] o3 band le
  have b: "calculate_sub_aqi 60 o3_bp = Inr (51 + (100 - 51) * (60 - 55) / (70 - 55))"
    by blast
  have rest: "\<not> ((0::rat) \<le> 25 \<and> (25::rat) \<le> 12) \<and> (20::rat) \<le> 25 \<and> (25::rat) \<le> 30"
    by simp
  from rest inside a band le b show ?thesis by simp
qed

section \<open>No matching band\<close>

text \<open>
  Claim C2. When no band of a (non-empty) table holds the concentration \<open>C\<close>, the
  function returns exactly 500 if \<open>C\<close> is strictly above the upper bound of the last
  band, and exactly 0 otherwise. In particular, on each of the five pollutant tables a
  concentration strictly above the top of the last (highest) band has the sub-index
  exactly 500. (The claim speaks of the last band, so the table has one; on the empty
  table \<^verbatim>\<open>breakpoints[-1]\<close> raises \<^verbatim>\<open>IndexError\<close>.)
\<close>

theorem calculate_sub_aqi_no_match:
  "(breakpoints \<noteq> []
      \<and> (\<forall>(low_c, high_c, low_i, high_i) \<in> set breakpoints. \<not> (low_c \<le> C \<and> C \<le> high_c))
     \<longrightarrow> calculate_sub_aqi C breakpoints
           = Inr (if fst (snd (last breakpoints)) < C then 500 else 0))
   \<and> (\<forall>bp \<in> {pm25_bp, pm10_bp, co_bp, o3_bp, no2_bp}.
         fst (snd (last bp)) < C \<longrightarrow> calculate_sub_aqi C bp = Inr 500)"
proof (intro conjI impI ballI)
  assume h: "breakpoints \<noteq> []
      \<and> (\<forall>(low_c, high_c, low_i, high_i) \<in> set breakpoints. \<not> (low_c \<le> C \<and> C \<le> high_c))"
  then have "sub_aqi_loop C breakpoints (breakpoints @ []) = sub_aqi_loop C breakpoints []"
    by (intro sub_aqi_loop_skip) simp
  with h show "calculate_sub_aqi C breakpoints
           = Inr (if fst (snd (last breakpoints)) < C then 500 else 0)"
    by (simp add: calculate_sub_aqi_def)
next
  fix bp assume "bp \<in> {pm25_bp, pm10_bp, co_bp, o3_bp, no2_bp}" "fst (snd (last bp)) < C"
  then show "calculate_sub_aqi C bp = Inr 500" by (rule above_top_500)
qed

theorem calculate_sub_aqi_no_match_witness:
  "pm25_bp \<noteq> []
   \<and> fst (snd (last pm25_bp)) < 600
   \<and> calculate_sub_aqi 600 pm25_bp = Inr 500
   \<and> \<not> fst (snd (last pm25_bp)) < 12.05
   \<and> calculate_sub_aqi 12.05 pm25_bp = Inr 0
   \<and> fst (snd (last no2_bp)) < 2050
   \<and> calculate_sub_aqi 2050 no2_bp = Inr 500"
proof -
  have ne: "pm25_bp \<noteq> []" by (simp add: pm25_bp_def)
  have no_600: "\<forall>(low_c, high_c, low_i, high_i) \<in> set pm25_bp.
      \<not> (low_c \<le> (600::rat) \<and> (600::rat) \<le> high_c)"
    by (simp add: pm25_bp_def)
  have no_gap: "\<forall>(low_c, high_c, low_i, high_i) \<in> set pm25_bp.
      \<not> (low_c \<le> (12.05::rat) \<and> (12.05::rat) \<le> high_c)"
    by (simp add: pm25_bp_def)
  have top: "fst (snd (last pm25_bp)) < 600" "\<not> fst (snd (last pm25_bp)) < 12.05"
    "fst (snd (last no2_bp)) < 2050"
    by (simp_all add: table_top)
  have no2: "no2_bp \<in> {pm25_bp, pm10_bp, co_bp, o3_bp, no2_bp}" by simp
  from calculate_sub_aqi_no_match [of pm25_bp 600] ne no_600 top(1)
  have a: "calculate_sub_aqi 600 pm25_bp = Inr 500" by simp
  from calculate_sub_aqi_no_match [of pm25_bp "12.05"] ne no_gap top(2)
  have b: "calculate_sub_aqi 12.05 pm25_bp = Inr 0" by simp
  from calculate_sub_aqi_no_match [of no2_bp 2050] no2 top(3)
  have c: "calculate_sub_aqi 2050 no2_bp = Inr 500" by blast
  from ne top a b c show ?thesis by simp
qed

section \<open>Saturation above the highest band\<close>

text \<open>
  Claim C8, as stated, says that for some concentration above the top of a pollutant's
  highest band the sub-index exceeds 500. No such concentration exists for any of the
  five tables.
\<close>

theorem sub_index_above_500_refuted:
  "\<not> (\<exists>bp \<in> {pm25_bp, pm10_bp, co_bp, o3_bp, no2_bp}. \<exists>C v.
         fst (snd (last bp)) < C \<and> calculate_sub_aqi C bp = Inr v \<and> 500 < v)"
proof
  assume "\<exists>bp \<in> {pm25_bp, pm10_bp, co_bp, o3_bp, no2_bp}. \<exists>C v.
         fst (snd (last bp)) < C \<and> calculate_sub_aqi C bp = Inr v \<and> 500 < v"
  then obtain bp C v where bp: "bp \<in> {pm25_bp, pm10_bp, co_bp, o3_bp, no2_bp}"
    and C: "fst (snd (last bp)) < C" and v: "calculate_sub_aqi C bp = Inr v" "500 < v"
    by blast
  from above_top_500 [OF bp C] v show False by simp
qed

text \<open>
  Claim C8, amended. For every concentration strictly above the top of a pollutant's
  highest band the sub-index is exactly 500; it is never greater than 500.
\<close>

theorem sub_index_saturates_at_500:
  "\<forall>bp \<in> {pm25_bp, pm10_bp, co_bp, o3_bp, no2_bp}.
     fst (snd (last bp)) < C \<longrightarrow>
       calculate_sub_aqi C bp = Inr 500
       \<and> \<not> (\<exists>v. calculate_sub_aqi C bp = Inr v \<and> 500 < v)"
proof (intro ballI impI)
  fix bp assume "bp \<in> {pm25_bp, pm10_bp, co_bp, o3_bp, no2_bp}" "fst (snd (last bp)) < C"
  then have "calculate_sub_aqi C bp = Inr 500" by (rule above_top_500)
  then show "calculate_sub_aqi C bp = Inr 500
       \<and> \<not> (\<exists>v. calculate_sub_aqi C bp = Inr v \<and> 500 < v)" by simp
qed

theorem sub_index_saturates_at_500_witness:
  "fst (snd (last pm25_bp)) < 600 \<and> calculate_sub_aqi 600 pm25_bp = Inr 500
   \<and> \<not> (\<exists>v. calculate_sub_aqi 600 pm25_bp = Inr v \<and> 500 < v)
   \<and> fst (snd (last co_bp)) < 50.5 \<and> calculate_sub_aqi 50.5 co_bp = Inr 500
   \<and> \<not> (\<exists>v. calculate_sub_aqi 50.5 co_bp = Inr v \<and> 500 < v)"
  using sub_index_saturates_at_500 [of 600] sub_index_saturates_at_500 [of "50.5"]
  by (simp add: table_top)

section \<open>Gaps between consecutive bands\<close>

text \<open>
  Claim C10. On each of the five tables, a concentration strictly between the upper
  bound of a band and the lower bound of the next band matches no band and has the
  sub-index 0; for PM2.5 this holds for every \<open>C\<close> with \<open>12 < C < 12.1\<close>. So the
  sub-index is not monotone across band boundaries: it is 50 at \<open>C = 12\<close> and 0 at
  \<open>C = 12.05\<close>. Inside one band it is non-decreasing: for \<open>X \<le> Y\<close> in the same band the
  sub-index of \<open>X\<close> is at most that of \<open>Y\<close>.
\<close>

theorem gap_between_bands_gives_zero:
  "(\<forall>bp \<in> {pm25_bp, pm10_bp, co_bp, o3_bp, no2_bp}. \<forall>i.
       Suc i < length bp \<and> fst (snd (bp ! i)) < C \<and> C < fst (bp ! Suc i)
       \<longrightarrow> calculate_sub_aqi C bp = Inr 0)
   \<and> (12 < C \<and> C < 12.1 \<longrightarrow> calculate_sub_aqi C pm25_bp = Inr 0)
   \<and> calculate_sub_aqi 12 pm25_bp = Inr 50
   \<and> calculate_sub_aqi 12.05 pm25_bp = Inr 0
   \<and> (\<forall>bp \<in> {pm25_bp, pm10_bp, co_bp, o3_bp, no2_bp}.
        \<forall>(low_c, high_c, low_i, high_i) \<in> set bp.
          low_c \<le> X \<and> X \<le> Y \<and> Y \<le> high_c \<longrightarrow>
          (\<exists>v w. calculate_sub_aqi X bp = Inr v \<and> calculate_sub_aqi Y bp = Inr w \<and> v \<le> w))"
proof (intro conjI)
  show "\<forall>bp \<in> {pm25_bp, pm10_bp, co_bp, o3_bp, no2_bp}. \<forall>i.
       Suc i < length bp \<and> fst (snd (bp ! i)) < C \<and> C < fst (bp ! Suc i)
       \<longrightarrow> calculate_sub_aqi C bp = Inr 0"
    using gap_of_table by blast
  show "12 < C \<and> C < 12.1 \<longrightarrow> calculate_sub_aqi C pm25_bp = Inr 0"
    by (simp add: calculate_sub_aqi_pm25)
  show "calculate_sub_aqi 12 pm25_bp = Inr 50"
    by (simp add: calculate_sub_aqi_pm25)
  show "calculate_sub_aqi 12.05 pm25_bp = Inr 0"
    by (simp add: calculate_sub_aqi_pm25)
  show "\<forall>bp \<in> {pm25_bp, pm10_bp, co_bp, o3_bp, no2_bp}.
        \<forall>(low_c, high_c, low_i, high_i) \<in> set bp.
          low_c \<le> X \<and> X \<le> Y \<and> Y \<le> high_c \<longrightarrow>
          (\<exists>v w. calculate_sub_aqi X bp = Inr v \<and> calculate_sub_aqi Y bp = Inr w \<and> v \<le> w)"
  proof (intro ballI, clarify)
    fix bp low_c high_c low_i high_i
    assume bp: "bp \<in> {pm25_bp, pm10_bp, co_bp, o3_bp, no2_bp}"
      and b: "(low_c, high_c, low_i, high_i) \<in> set bp"
      and xy: "low_c \<le> X" "X \<le> Y" "Y \<le> high_c"
    from xy have x: "X \<le> high_c" and y: "low_c \<le> Y" by simp_all
    from band_of_table [OF bp b xy(1) x] band_of_table [OF bp b y xy(3)] interp_mono xy(2)
    show "\<exists>v w. calculate_sub_aqi X bp = Inr v \<and> calculate_sub_aqi Y bp = Inr w \<and> v \<le> w"
      by blast
  qed
qed

theorem gap_between_bands_gives_zero_witness:
  "Suc 0 < length pm25_bp \<and> fst (snd (pm25_bp ! 0)) < 12.05 \<and> 12.05 < fst (pm25_bp ! Suc 0)
   \<and> calculate_sub_aqi 12.05 pm25_bp = Inr 0
   \<and> (12::rat) < 12.05 \<and> (12.05::rat) < 12.1
   \<and> (0, 12, 0, 50) \<in> set pm25_bp \<and> (0::rat) \<le> 3 \<and> (3::rat) \<le> 12 \<and> (12::rat) \<le> 12
   \<and> (\<exists>v w. calculate_sub_aqi 3 pm25_bp = Inr v \<and> calculate_sub_aqi 12 pm25_bp = Inr w \<and> v \<le> w)"
proof -
  have in_tables: "pm25_bp \<in> {pm25_bp, pm10_bp, co_bp, o3_bp, no2_bp}" by simp
  have gap: "Suc 0 < length pm25_bp \<and> fst (snd (pm25_bp ! 0)) < 12.05
      \<and> 12.05 < fst (pm25_bp ! Suc 0)"
    by (simp add: pm25_bp_def)
  have band: "(0, 12, 0, 50) \<in> set pm25_bp" by (simp add: pm25_bp_def)
  have le: "(0::rat) \<le> 3 \<and> (3::rat) \<le> 12 \<and> (12::rat) \<le> 12" by simp
  from gap_between_bands_gives_zero [of "12.05" 3 12] in_tables gap
  have "calculate_sub_aqi 12.05 pm25_bp = Inr 0" by blast
  moreover from gap_between_bands_gives_zero [of "12.05" 3 12] in_tables band le
  have "\<exists>v w. calculate_sub_aqi 3 pm25_bp = Inr v \<and> calculate_sub_aqi 12 pm25_bp = Inr w \<and> v \<le> w"
    by blast
  ultimately show ?thesis using gap band by simp
qed

section \<open>Overall index and dominant pollutant\<close>

text \<open>
  Claim C4. When at least one reading is supplied, \<^verbatim>\<open>get_aqi\<close> raises nothing; with
  \<open>l\<close> the list of sub-indices of the supplied readings in the evaluation order PM2.5,
  PM10, CO, ozone, nitrogen dioxide and \<open>m\<close> the maximum of the sub-indices, it returns
  \<open>m\<close> rounded by \<^verbatim>\<open>round\<close>, an integer at distance at most 1/2 from \<open>m\<close>, as overall
  index and, as dominant pollutant, the name of the first entry of \<open>l\<close> whose sub-index
  equals \<open>m\<close>. With a single reading it returns that reading's sub-index, rounded, and
  that reading's pollutant. Examples: the readings 25, 54, 1, 60, 40 give 78 with PM2.5
  (sub-indices about 78.13, 50, 11.36, 67.33, 37.74); PM2.5 = 5 and ozone = 60 give 67
  with ozone, the later and greater one; PM10 = 54, ozone = 54 and nitrogen dioxide = 53
  all have the sub-index 50 and give 50 with PM10, the first of them; PM2.5 = 12 and
  PM10 = 54 tie at 50 and give PM2.5; the single readings PM2.5 = 3 and PM2.5 = 9 have
  the sub-indices 12.5 and 37.5 and give 12 and 38.
\<close>

theorem get_aqi_maximum_and_dominant:
  "(\<not> (pm25 = None \<and> pm10 = None \<and> co = None \<and> o3 = None \<and> no2 = None) \<longrightarrow>
     (\<exists>l m p. list_all2 is_sub_index (supplied pm25 pm10 co o3 no2) l
        \<and> m = Max (snd ` set l)
        \<and> List.find (\<lambda>(q, w). w = m) l = Some (p, m)
        \<and> get_aqi pm25 pm10 co o3 no2 = Inr (py_round m, p)
        \<and> \<bar>of_int (py_round m) - m\<bar> \<le> 1 / 2)
     \<and> (\<forall>name bp c. supplied pm25 pm10 co o3 no2 = [(name, bp, c)] \<longrightarrow>
          (\<exists>v. calculate_sub_aqi c bp = Inr v
             \<and> get_aqi pm25 pm10 co o3 no2 = Inr (py_round v, name)
             \<and> \<bar>of_int (py_round v) - v\<bar> \<le> 1 / 2)))
   \<and> get_aqi (Some 25) (Some 54) (Some 1) (Some 60) (Some 40) = Inr (78, name_pm25)
   \<and> get_aqi (Some 5) None None (Some 60) None = Inr (67, name_o3)
   \<and> get_aqi None (Some 54) None (Some 54) (Some 53) = Inr (50, name_pm10)
   \<and> get_aqi (Some 12) (Some 54) None None None = Inr (50, name_pm25)
   \<and> get_aqi (Some 3) None None None None = Inr (12, name_pm25)
   \<and> get_aqi (Some 9) None None None None = Inr (38, name_pm25)"
proof (intro conjI impI)
  assume some: "\<not> (pm25 = None \<and> pm10 = None \<and> co = None \<and> o3 = None \<and> no2 = None)"
  from get_aqi_first_max [OF some] obtain pre p v post where
    sub: "list_all2 is_sub_index (supplied pm25 pm10 co o3 no2) (pre @ (p, v) # post)"
    and mx: "v = Max (snd ` set (pre @ (p, v) # post))"
    and pre: "\<forall>(q, w) \<in> set pre. w < v"
    and res: "get_aqi pm25 pm10 co o3 no2 = Inr (py_round v, p)"
    by blast
  have near: "\<bar>of_int (py_round v) - v\<bar> \<le> 1 / 2" by (rule py_round_nearest)
  have "\<forall>x \<in> set pre. \<not> (case x of (q, w) \<Rightarrow> w = v)" using pre by auto
  then have fnd: "List.find (\<lambda>(q, w). w = v) (pre @ (p, v) # post) = Some (p, v)"
    by (rule find_first) simp
  show "\<exists>l m p. list_all2 is_sub_index (supplied pm25 pm10 co o3 no2) l
        \<and> m = Max (snd ` set l)
        \<and> List.find (\<lambda>(q, w). w = m) l = Some (p, m)
        \<and> get_aqi pm25 pm10 co o3 no2 = Inr (py_round m, p)
        \<and> \<bar>of_int (py_round m) - m\<bar> \<le> 1 / 2"
    using sub mx fnd res near by blast
  have single: "\<exists>u. calculate_sub_aqi c bp = Inr u
             \<and> get_aqi pm25 pm10 co o3 no2 = Inr (py_round u, name)
             \<and> \<bar>of_int (py_round u) - u\<bar> \<le> 1 / 2"
    if one: "supplied pm25 pm10 co o3 no2 = [(name, bp, c)]" for name bp c
  proof -
    from sub one have len: "length (pre @ (p, v) # post) = 1"
      by (metis length_Cons list.size(3) list_all2_lengthD One_nat_def)
    then have "pre = []" and "post = []" by simp_all
    with sub one have "is_sub_index (name, bp, c) (p, v)" by simp
    then have "p = name" and "calculate_sub_aqi c bp = Inr v" by (simp_all add: is_sub_index_def)
    with res near show ?thesis by simp
  qed
  then show "\<forall>name bp c. supplied pm25 pm10 co o3 no2 = [(name, bp, c)] \<longrightarrow>
          (\<exists>v. calculate_sub_aqi c bp = Inr v
             \<and> get_aqi pm25 pm10 co o3 no2 = Inr (py_round v, name)
             \<and> \<bar>of_int (py_round v) - v\<bar> \<le> 1 / 2)"
    by blast
qed (rule get_aqi_defaults get_aqi_later_maximum get_aqi_tie get_aqi_single)+

theorem get_aqi_maximum_and_dominant_witness:
  "supplied (Some 5) (Some 54) None (Some 54) None
     = [(name_pm25, pm25_bp, 5), (name_pm10, pm10_bp, 54), (name_o3, o3_bp, 54)]
   \<and> calculate_sub_aqi 5 pm25_bp = Inr (125 / 6)
   \<and> calculate_sub_aqi 54 pm10_bp = Inr 50
   \<and> calculate_sub_aqi 54 o3_bp = Inr 50
   \<and> get_aqi (Some 5) (Some 54) None (Some 54) None = Inr (50, name_pm10)
   \<and> supplied None None (Some 1) None None = [(name_co, co_bp, 1)]
   \<and> calculate_sub_aqi 1 co_bp = Inr (125 / 11)
   \<and> get_aqi None None (Some 1) None None = Inr (11, name_co)"
proof -
  have sup: "supplied (Some 5) (Some 54) None (Some 54) None
     = [(name_pm25, pm25_bp, 5), (name_pm10, pm10_bp, 54), (name_o3, o3_bp, 54)]"
    by (simp add: supplied_def reading_def)
  have v1: "calculate_sub_aqi 5 pm25_bp = Inr (125 / 6)" by (simp add: calculate_sub_aqi_pm25)
  have v2: "calculate_sub_aqi 54 pm10_bp = Inr 50" by (simp add: calculate_sub_aqi_pm10)
  have v3: "calculate_sub_aqi 54 o3_bp = Inr 50" by (simp add: calculate_sub_aqi_o3)
  have some: "\<not> (Some (5::rat) = None \<and> Some (54::rat) = None \<and> None = (None :: rat option)
       \<and> Some (54::rat) = None \<and> None = (None :: rat option))"
    by simp
  from get_aqi_maximum_and_dominant [of "Some 5" "Some 54" None "Some 54" None] some
  obtain l m p where
    sub: "list_all2 is_sub_index (supplied (Some 5) (Some 54) None (Some 54) None) l"
    and m: "m = Max (snd ` set l)"
    and fnd: "List.find (\<lambda>(q, w). w = m) l = Some (p, m)"
    and res: "get_aqi (Some 5) (Some 54) None (Some 54) None = Inr (py_round m, p)"
    by blast
  from sub have l: "l = [(name_pm25, 125 / 6), (name_pm10, 50), (name_o3, 50)]"
    unfolding sup by (auto simp: list_all2_Cons1 is_sub_index_def v1 v2 v3)
  have m50: "m = 50" unfolding m l by simp
  from fnd have "p = name_pm10" unfolding l m50 by simp
  with res m50 have many: "get_aqi (Some 5) (Some 54) None (Some 54) None = Inr (50, name_pm10)"
    by (simp add: py_round_examples)
  have one: "supplied None None (Some 1) None None = [(name_co, co_bp, 1)]"
    by (simp add: supplied_def reading_def)
  have v4: "calculate_sub_aqi 1 co_bp = Inr (125 / 11)" by (simp add: calculate_sub_aqi_co)
  have some': "\<not> (None = (None :: rat option) \<and> None = (None :: rat option)
       \<and> Some (1::rat) = None \<and> None = (None :: rat option) \<and> None = (None :: rat option))"
    by simp
  from get_aqi_maximum_and_dominant [of None None "Some 1" None None] some' one
  obtain v where cv: "calculate_sub_aqi 1 co_bp = Inr v"
    and rv: "get_aqi None None (Some 1) None None = Inr (py_round v, name_co)"
    by blast
  from cv [unfolded v4] have veq: "125 / 11 = v" by (simp only: sum.inject)
  have single: "get_aqi None None (Some 1) None None = Inr (11, name_co)"
    using rv by (simp only: veq [symmetric] py_round_examples)
  from sup v1 v2 v3 many one v4 single show ?thesis by (intro conjI)
qed

section \<open>Rounding happens once, after the comparison\<close>

text \<open>
  Claim C9. When at least one reading is supplied, the list of sub-indices splits into
  the entries before the dominant one, all of which have a strictly smaller unrounded
  sub-index, the dominant entry \<open>(p, v)\<close>, and the entries after it, none of which has a
  greater unrounded sub-index; the overall index is \<open>v\<close> rounded, an integer at distance
  at most 1/2 from \<open>v\<close>. The comparison is on the unrounded values: for PM2.5 = 19.8 and
  ozone = 60 the sub-indices are 15656/233 (about 67.19) and 202/3 (about 67.33), both
  round to 67, and the result is 67 with ozone as dominant pollutant, not PM2.5, which
  comes first in evaluation order.
\<close>

theorem get_aqi_rounds_after_comparison:
  "(\<not> (pm25 = None \<and> pm10 = None \<and> co = None \<and> o3 = None \<and> no2 = None) \<longrightarrow>
     (\<exists>pre p v post.
        list_all2 is_sub_index (supplied pm25 pm10 co o3 no2) (pre @ (p, v) # post)
        \<and> (\<forall>(q, w) \<in> set pre. w < v) \<and> (\<forall>(q, w) \<in> set post. w \<le> v)
        \<and> get_aqi pm25 pm10 co o3 no2 = Inr (py_round v, p)
        \<and> \<bar>of_int (py_round v) - v\<bar> \<le> 1 / 2))
   \<and> aqi_list (Some 19.8) None None (Some 60) None
        = Inr [(name_pm25, 15656 / 233), (name_o3, 202 / 3)]
   \<and> py_round (15656 / 233) = 67 \<and> py_round (202 / 3) = 67
   \<and> get_aqi (Some 19.8) None None (Some 60) None = Inr (67, name_o3)"
proof (intro conjI impI)
  assume "\<not> (pm25 = None \<and> pm10 = None \<and> co = None \<and> o3 = None \<and> no2 = None)"
  from get_aqi_first_max [OF this] py_round_nearest
  show "\<exists>pre p v post.
        list_all2 is_sub_index (supplied pm25 pm10 co o3 no2) (pre @ (p, v) # post)
        \<and> (\<forall>(q, w) \<in> set pre. w < v) \<and> (\<forall>(q, w) \<in> set post. w \<le> v)
        \<and> get_aqi pm25 pm10 co o3 no2 = Inr (py_round v, p)
        \<and> \<bar>of_int (py_round v) - v\<bar> \<le> 1 / 2"
    by blast
qed (rule aqi_list_example py_round_67 get_aqi_example)+

theorem get_aqi_rounds_after_comparison_witness:
  "\<not> (Some (19.8::rat) = None \<and> None = (None :: rat option) \<and> None = (None :: rat option)
       \<and> Some (60::rat) = None \<and> None = (None :: rat option))
   \<and> (\<exists>pre p v post.
        list_all2 is_sub_index (supplied (Some 19.8) None None (Some 60) None)
          (pre @ (p, v) # post)
        \<and> (\<forall>(q, w) \<in> set pre. w < v) \<and> (\<forall>(q, w) \<in> set post. w \<le> v)
        \<and> get_aqi (Some 19.8) None None (Some 60) None = Inr (py_round v, p)
        \<and> \<bar>of_int (py_round v) - v\<bar> \<le> 1 / 2)"
proof -
  have some: "\<not> (Some (19.8::rat) = None \<and> None = (None :: rat option)
       \<and> None = (None :: rat option) \<and> Some (60::rat) = None \<and> None = (None :: rat option))"
    by simp
  from get_aqi_rounds_after_comparison [of "Some 19.8" None None "Some 60" None] some
  show ?thesis by blast
qed

end
